theory Spec2Isabelle
  imports Main
begin

section \<open>Python values and failures\<close>

text \<open>
  The values that the tools of \<^verbatim>\<open>main.py\<close> store and return: \<^verbatim>\<open>None\<close>, strings,
  integers and lists. A dictionary literal of the source is an association list in the
  order in which the source writes its keys.
\<close>

datatype pyval = PNone | PStr string | PInt int | PList "pyval list"

type_synonym pydict = "(string \<times> pyval) list"

text \<open>
  An exception raised by the hosting client (status code and message). The tools of
  \<^verbatim>\<open>main.py\<close> contain no \<^verbatim>\<open>try\<close>, so it leaves the tool as it was raised.
\<close>

datatype error = GithubException int string

definition str_or_none :: "string option \<Rightarrow> pyval" where
  "str_or_none v = (case v of None \<Rightarrow> PNone | Some s \<Rightarrow> PStr s)"

section \<open>The state-write tools\<close>

text \<open>
  \<^verbatim>\<open>
  def add_context_to_state(state: dict, context: str):
      state["gathered_contexts"] = context
      return state
  \<close>
  and likewise for the two other fields. The Python assigns into the dictionary it is
  given and returns that same dictionary; the model returns the updated mapping.
\<close>

type_synonym shared_state = "string \<rightharpoonup> pyval"

definition add_context_to_state :: "shared_state \<Rightarrow> pyval \<Rightarrow> shared_state" where
  "add_context_to_state state context = state(''gathered_contexts'' \<mapsto> context)"

definition add_comment_to_state :: "shared_state \<Rightarrow> pyval \<Rightarrow> shared_state" where
  "add_comment_to_state state draft_comment = state(''draft_comment'' \<mapsto> draft_comment)"

definition add_final_review_to_state :: "shared_state \<Rightarrow> pyval \<Rightarrow> shared_state" where
  "add_final_review_to_state state final_review =
     state(''final_review_comment'' \<mapsto> final_review)"

section \<open>The hosting collaborator\<close>

text \<open>
  The objects of the hosting client, with the attributes that \<^verbatim>\<open>main.py\<close> reads.
  \<^verbatim>\<open>body\<close> and \<^verbatim>\<open>patch\<close> may be \<^verbatim>\<open>None\<close>. Reading an attribute of an object that the
  client has returned is taken not to fail; the calls that fetch objects may.
\<close>

record named_user =
  login :: string

record pull_request_part =
  sha :: string

record changed_file =
  filename :: string
  status :: string
  additions :: int
  deletions :: int
  changes :: int
  patch :: "string option"

record commit =
  sha :: string
  files :: "changed_file list"

record pull_request =
  number :: int
  user :: named_user
  title :: string
  body :: "string option"
  diff_url :: string
  state :: string
  head :: pull_request_part

record pull_request_review =
  id' :: int

text \<open>
  The repository object \<^verbatim>\<open>repo\<close> is a parameter of the model: its four operations, over
  a hosting state \<open>'h\<close> of the collaborator's own. Each may raise. Only
  \<^verbatim>\<open>create_review\<close> changes the hosting state.
\<close>

record 'h repository =
  get_pull :: "'h \<Rightarrow> int \<Rightarrow> error + pull_request"
  get_commits :: "'h \<Rightarrow> pull_request \<Rightarrow> error + commit list"
  get_commit :: "'h \<Rightarrow> string \<Rightarrow> error + commit"
  create_review :: "'h \<Rightarrow> pull_request \<Rightarrow> string \<Rightarrow> string \<Rightarrow> error + pull_request_review \<times> 'h"

section \<open>The read tools and the posting tool\<close>

definition get_pr_details :: "'h repository \<Rightarrow> 'h \<Rightarrow> int \<Rightarrow> error + pydict" where
  "get_pr_details repo h pr_number =
     (case get_pull repo h pr_number of
        Inl e \<Rightarrow> Inl e
      | Inr pull_request \<Rightarrow>
          (case get_commits repo h pull_request of
             Inl e \<Rightarrow> Inl e
           | Inr cs \<Rightarrow>
               (let commit_SHAs = map commit.sha cs in
                Inr [(''author'', PStr (login (user pull_request))),
                     (''title'', PStr (title pull_request)),
                     (''body'', str_or_none (body pull_request)),
                     (''diff_url'', PStr (diff_url pull_request)),
                     (''state'', PStr (state pull_request)),
                     (''head_sha'', PStr (pull_request_part.sha (head pull_request))),
                     (''commit_SHAs'', PList (map PStr commit_SHAs))])))"

definition file_record :: "changed_file \<Rightarrow> pydict" where
  "file_record f =
     [(''filename'', PStr (filename f)),
      (''status'', PStr (status f)),
      (''additions'', PInt (additions f)),
      (''deletions'', PInt (deletions f)),
      (''changes'', PInt (changes f)),
      (''patch'', str_or_none (patch f))]"

definition get_commit_details :: "'h repository \<Rightarrow> 'h \<Rightarrow> string \<Rightarrow> error + pydict list" where
  "get_commit_details repo h head_sha =
     (case get_commit repo h head_sha of
        Inl e \<Rightarrow> Inl e
      | Inr commit \<Rightarrow> Inr (map file_record (files commit)))"

definition post_review_to_github ::
  "'h repository \<Rightarrow> 'h \<Rightarrow> int \<Rightarrow> string \<Rightarrow> error + pydict \<times> 'h" where
  "post_review_to_github repo h pr_number comment =
     (case get_pull repo h pr_number of
        Inl e \<Rightarrow> Inl e
      | Inr pr \<Rightarrow>
          (case create_review repo h pr comment ''COMMENT'' of
             Inl e \<Rightarrow> Inl e
           | Inr (review, h') \<Rightarrow>
               Inr ([(''status'', PStr ''success''), (''review_id'', PInt (id' review))], h')))"

section \<open>Tools, agents and the workflow\<close>

datatype tool_fn =
    Fn_get_pr_details
  | Fn_get_commit_details
  | Fn_add_context_to_state
  | Fn_add_comment_to_state
  | Fn_add_final_review_to_state
  | Fn_post_review_to_github

record function_tool =
  fn :: tool_fn
  tool_name :: string

definition from_defaults :: "tool_fn \<Rightarrow> string \<Rightarrow> function_tool" where
  "from_defaults f n = \<lparr>fn = f, tool_name = n\<rparr>"

definition get_pr_tool :: function_tool where
  "get_pr_tool = from_defaults Fn_get_pr_details ''get_pr_details''"

definition get_commit_tool :: function_tool where
  "get_commit_tool = from_defaults Fn_get_commit_details ''get_commit_details''"

definition add_context_tool :: function_tool where
  "add_context_tool = from_defaults Fn_add_context_to_state ''add_context_to_state''"

definition add_comment_tool :: function_tool where
  "add_comment_tool = from_defaults Fn_add_comment_to_state ''add_comment_to_state''"

definition add_final_review_tool :: function_tool where
  "add_final_review_tool =
     from_defaults Fn_add_final_review_to_state ''add_final_review_to_state''"

definition post_review_tool :: function_tool where
  "post_review_tool = from_defaults Fn_post_review_to_github ''post_review_to_github''"

text \<open>
  An agent as \<^verbatim>\<open>main.py\<close> configures it. The language-model client that every agent
  shares is outside the model.
\<close>

record function_agent =
  name :: string
  description :: string
  tools :: "function_tool list"
  system_prompt :: string
  can_handoff_to :: "string list"

definition context_agent :: function_agent where
  "context_agent = \<lparr>
     name = ''ContextAgent'',
     description =
       ''Gathers all the needed context about the PR: details, changed files, and repo files.'',
     tools = [get_pr_tool, get_commit_tool, add_context_tool],
     system_prompt =
       ''You are the context gathering agent. When gathering context, you MUST gather:\<newline>'' @
       ''- PR details: author, title, body, diff_url, state, head_sha;\<newline>'' @
       ''- Changed files;\<newline>'' @
       ''- Any requested repo files.\<newline>'' @
       ''Once finished, you MUST hand control back to the CommentorAgent.'',
     can_handoff_to = [''CommentorAgent'']\<rparr>"

definition commentor_agent :: function_agent where
  "commentor_agent = \<lparr>
     name = ''CommentorAgent'',
     description =
       ''Uses the context gathered by the context agent to draft a PR review comment.'',
     tools = [add_comment_tool],
     system_prompt =
       ''You are the commentor agent that writes review comments for pull requests as a human reviewer would.\<newline>'' @
       ''Ensure to:\<newline>'' @
       ''- Request PR details, changed files, and repo files from ContextAgent.\<newline>'' @
       ''- Then write a ~200-300 word review in markdown with:\<newline>'' @
       ''  * What's good about the PR?\<newline>'' @
       ''  * Did the author follow contribution rules?\<newline>'' @
       ''  * Are there tests and migrations?\<newline>'' @
       ''  * Are endpoints documented?\<newline>'' @
       ''  * Which lines could be improved? Quote them and suggest fixes.\<newline>'' @
       ''- Address the author directly (e.g., 'Thanks for fixing this...').\<newline>'' @
       ''- You must hand off to the ReviewAndPostingAgent once you are done drafting a review.'',
     can_handoff_to = [''ContextAgent'', ''ReviewAndPostingAgent'']\<rparr>"

definition review_and_posting_agent :: function_agent where
  "review_and_posting_agent = \<lparr>
     name = ''ReviewAndPostingAgent'',
     description =
       ''Reviews the draft comment, refines it if needed, and posts it to GitHub.'',
     tools = [add_final_review_tool, post_review_tool],
     system_prompt =
       ''You are the Review and Posting agent. You must use the CommentorAgent to create a review comment.\<newline>'' @
       ''Once a review is generated, you need to run a final check and post it to GitHub.\<newline>'' @
       ''   - The review must:\<newline>'' @
       ''   - Be a ~200-300 word review in markdown format.\<newline>'' @
       ''   - Specify what is good about the PR.\<newline>'' @
       ''   - Did the author follow ALL contribution rules? What is missing?\<newline>'' @
       ''   - Are there notes on test availability for new functionality? If there are new models, are there migrations for them?\<newline>'' @
       ''   - Are there notes on whether new endpoints were documented?\<newline>'' @
       ''   - Are there suggestions on which lines could be improved upon? Are these lines quoted?\<newline>'' @
       ''If the review does not meet this criteria, you must ask the CommentorAgent to rewrite it.\<newline>'' @
       ''When you are satisfied, post the review to GitHub.'',
     can_handoff_to = [''CommentorAgent'']\<rparr>"

record agent_workflow =
  agents :: "function_agent list"
  root_agent :: string
  initial_state :: shared_state

definition workflow_agent :: agent_workflow where
  "workflow_agent = \<lparr>
     agents = [context_agent, commentor_agent, review_and_posting_agent],
     root_agent = name review_and_posting_agent,
     initial_state =
       [''gathered_contexts'' \<mapsto> PStr '''',
        ''draft_comment'' \<mapsto> PStr '''',
        ''final_review_comment'' \<mapsto> PStr '''']\<rparr>"

text \<open>
  The handoff graph that the configuration declares: the agent names that can become the
  current agent, starting from the root agent and following declared handoff targets only.
\<close>

inductive_set handoff_states :: "agent_workflow \<Rightarrow> string set" for w :: agent_workflow where
  root: "root_agent w \<in> handoff_states w"
| handoff: "cur \<in> handoff_states w \<Longrightarrow> a \<in> set (agents w) \<Longrightarrow> name a = cur \<Longrightarrow>
     target \<in> set (can_handoff_to a) \<Longrightarrow> target \<in> handoff_states w"

section \<open>The runner\<close>

text \<open>
  \<^verbatim>\<open>
  pr_number = os.getenv("PR_NUMBER") or "1"
  query = f"Write a review for PR number {pr_number}"
  \<close>
  \<^verbatim>\<open>os.getenv\<close> gives \<^verbatim>\<open>None\<close> for an unset variable; \<^verbatim>\<open>or\<close> takes its right operand
  when the left one is \<^verbatim>\<open>None\<close> or the empty string.
\<close>

type_synonym environ = "string \<rightharpoonup> string"

definition getenv :: "environ \<Rightarrow> string \<Rightarrow> string option" where
  "getenv env key = env key"

definition py_or :: "string option \<Rightarrow> string \<Rightarrow> string" where
  "py_or v d = (case v of None \<Rightarrow> d | Some s \<Rightarrow> if s = [] then d else s)"

definition main_pr_number :: "environ \<Rightarrow> string" where
  "main_pr_number env = py_or (getenv env ''PR_NUMBER'') ''1''"

definition main_query :: "environ \<Rightarrow> string" where
  "main_query env = ''Write a review for PR number '' @ main_pr_number env"

section \<open>Sample hosting services\<close>

text \<open>
  Concrete collaborators on which the tools are evaluated. The hosting state is the list
  of the reviews posted so far (PR number and body), and the identifier of a review is
  its position in that list. The three services differ in what they do with a review
  that repeats one already posted: post another, return the existing one, or refuse.
\<close>

datatype repeat_policy = PostAnother | ReturnExisting | Refuse

definition sample_file :: changed_file where
  "sample_file = \<lparr>filename = ''README.md'', status = ''modified'', additions = 3,
     deletions = 3, changes = 6, patch = Some ''@@ -1,3 +1,3 @@''\<rparr>"

definition sample_commit :: commit where
  "sample_commit = \<lparr>commit.sha = ''abc123'', files = [sample_file]\<rparr>"

definition sample_pr :: pull_request where
  "sample_pr = \<lparr>number = 1, user = \<lparr>login = ''octocat''\<rparr>, title = ''Fix typo'',
     body = None, diff_url = ''https://example.org/pull/1.diff'', state = ''open'',
     head = \<lparr>pull_request_part.sha = ''abc123''\<rparr>\<rparr>"

definition sample_create_review ::
  "repeat_policy \<Rightarrow> (int \<times> string) list \<Rightarrow> pull_request \<Rightarrow> string \<Rightarrow> string \<Rightarrow>
     error + pull_request_review \<times> (int \<times> string) list" where
  "sample_create_review policy h pr b ev =
     (if (number pr, b) \<in> set h \<and> policy = ReturnExisting then
        Inr (\<lparr>id' = int (length (takeWhile (\<lambda>x. x \<noteq> (number pr, b)) h)) + 1\<rparr>, h)
      else if (number pr, b) \<in> set h \<and> policy = Refuse then
        Inl (GithubException 422 ''Unprocessable Entity'')
      else Inr (\<lparr>id' = int (length h) + 1\<rparr>, h @ [(number pr, b)]))"

definition sample_repo :: "repeat_policy \<Rightarrow> (int \<times> string) list repository" where
  "sample_repo policy = \<lparr>
     get_pull = (\<lambda>h n. if n = 1 then Inr sample_pr else Inl (GithubException 404 ''Not Found'')),
     get_commits = (\<lambda>h pr. Inr [sample_commit]),
     get_commit = (\<lambda>h s. if s = ''abc123'' then Inr sample_commit
                          else Inl (GithubException 404 ''Not Found'')),
     create_review = sample_create_review policy\<rparr>"

section \<open>The state-write tools change one field\<close>

text \<open>
  C8. For every state mapping and every value, each state-write tool stores the value in
  its own field (\<^verbatim>\<open>gathered_contexts\<close>, \<^verbatim>\<open>draft_comment\<close>, \<^verbatim>\<open>final_review_comment\<close>),
  leaves every other field as it was, and removes no field.
\<close>

theorem state_write_tools_frame:
  "add_context_to_state s v ''gathered_contexts'' = Some v
   \<and> (\<forall>k. k \<noteq> ''gathered_contexts'' \<longrightarrow> add_context_to_state s v k = s k)
   \<and> dom s \<subseteq> dom (add_context_to_state s v)
   \<and> add_comment_to_state s v ''draft_comment'' = Some v
   \<and> (\<forall>k. k \<noteq> ''draft_comment'' \<longrightarrow> add_comment_to_state s v k = s k)
   \<and> dom s \<subseteq> dom (add_comment_to_state s v)
   \<and> add_final_review_to_state s v ''final_review_comment'' = Some v
   \<and> (\<forall>k. k \<noteq> ''final_review_comment'' \<longrightarrow> add_final_review_to_state s v k = s k)
   \<and> dom s \<subseteq> dom (add_final_review_to_state s v)"
  unfolding add_context_to_state_def add_comment_to_state_def add_final_review_to_state_def
  by auto

theorem state_write_tools_frame_witness:
  "add_context_to_state (initial_state workflow_agent) (PStr ''ctx'') ''draft_comment''
     = Some (PStr '''')
   \<and> add_comment_to_state (initial_state workflow_agent) (PStr ''draft'') ''final_review_comment''
     = Some (PStr '''')
   \<and> add_final_review_to_state (initial_state workflow_agent) (PStr ''final'') ''gathered_contexts''
     = Some (PStr '''')
   \<and> add_comment_to_state (initial_state workflow_agent) (PStr ''draft'') ''draft_comment''
     = Some (PStr ''draft'')"
  using state_write_tools_frame [of "initial_state workflow_agent" "PStr ''ctx''"]
    state_write_tools_frame [of "initial_state workflow_agent" "PStr ''draft''"]
    state_write_tools_frame [of "initial_state workflow_agent" "PStr ''final''"]
  by (simp add: workflow_agent_def)

section \<open>The runner's PR identifier\<close>

text \<open>
  C10. When \<^verbatim>\<open>PR_NUMBER\<close> is unset or empty the runner takes the string \<^verbatim>\<open>1\<close> and asks
  for a review of PR number 1; any other value of the variable is taken as the string it
  is, numeric or not.
\<close>

theorem main_pr_number_default:
  "(getenv env ''PR_NUMBER'' = None \<or> getenv env ''PR_NUMBER'' = Some '''' \<longrightarrow>
      main_pr_number env = ''1'' \<and> main_query env = ''Write a review for PR number 1'')
   \<and> (\<forall>s. getenv env ''PR_NUMBER'' = Some s \<and> s \<noteq> '''' \<longrightarrow>
      main_pr_number env = s \<and> main_query env = ''Write a review for PR number '' @ s)"
  by (auto simp: main_pr_number_def main_query_def py_or_def)

theorem main_pr_number_default_witness:
  "getenv Map.empty ''PR_NUMBER'' = None
   \<and> main_query Map.empty = ''Write a review for PR number 1''
   \<and> getenv [''PR_NUMBER'' \<mapsto> ''''] ''PR_NUMBER'' = Some ''''
   \<and> main_pr_number [''PR_NUMBER'' \<mapsto> ''''] = ''1''
   \<and> getenv [''PR_NUMBER'' \<mapsto> ''seven''] ''PR_NUMBER'' = Some ''seven''
   \<and> main_query [''PR_NUMBER'' \<mapsto> ''seven''] = ''Write a review for PR number seven''"
  using main_pr_number_default [of Map.empty]
    main_pr_number_default [of "[''PR_NUMBER'' \<mapsto> '''']"]
    main_pr_number_default [of "[''PR_NUMBER'' \<mapsto> ''seven'']"]
  by (simp add: getenv_def)

section \<open>The configured agents\<close>

lemma agent_names:
  "name context_agent = ''ContextAgent''"
  "name commentor_agent = ''CommentorAgent''"
  "name review_and_posting_agent = ''ReviewAndPostingAgent''"
  by (simp_all add: context_agent_def commentor_agent_def review_and_posting_agent_def)

lemma agent_handoffs:
  "can_handoff_to context_agent = [''CommentorAgent'']"
  "can_handoff_to commentor_agent = [''ContextAgent'', ''ReviewAndPostingAgent'']"
  "can_handoff_to review_and_posting_agent = [''CommentorAgent'']"
  by (simp_all add: context_agent_def commentor_agent_def review_and_posting_agent_def)

lemma agent_tool_fns:
  "map fn (tools context_agent) =
     [Fn_get_pr_details, Fn_get_commit_details, Fn_add_context_to_state]"
  "map fn (tools commentor_agent) = [Fn_add_comment_to_state]"
  "map fn (tools review_and_posting_agent) =
     [Fn_add_final_review_to_state, Fn_post_review_to_github]"
  by (simp_all add: context_agent_def commentor_agent_def review_and_posting_agent_def
      get_pr_tool_def get_commit_tool_def add_context_tool_def add_comment_tool_def
      add_final_review_tool_def post_review_tool_def from_defaults_def)

lemma agent_tool_names:
  "map tool_name (tools commentor_agent) = [''add_comment_to_state'']"
  "map tool_name (tools review_and_posting_agent) =
     [''add_final_review_to_state'', ''post_review_to_github'']"
  by (simp_all add: commentor_agent_def review_and_posting_agent_def
      add_comment_tool_def add_final_review_tool_def post_review_tool_def from_defaults_def)

lemma workflow_agents: "agents workflow_agent = [context_agent, commentor_agent, review_and_posting_agent]"
  by (simp add: workflow_agent_def)

lemma workflow_root: "root_agent workflow_agent = ''ReviewAndPostingAgent''"
  by (simp add: workflow_agent_def agent_names)

lemma handoff_states_upper:
  "x \<in> handoff_states workflow_agent \<Longrightarrow>
     x \<in> {''ContextAgent'', ''CommentorAgent'', ''ReviewAndPostingAgent''}"
proof (induction rule: handoff_states.induct)
  case root
  show ?case by (simp add: workflow_root)
next
  case (handoff cur a target)
  from handoff.hyps(2) have "a = context_agent \<or> a = commentor_agent \<or> a = review_and_posting_agent"
    by (simp add: workflow_agents)
  with handoff.hyps(4) show ?case
    by (auto simp: agent_handoffs)
qed

lemma handoff_states_review: "''ReviewAndPostingAgent'' \<in> handoff_states workflow_agent"
  using handoff_states.root [of workflow_agent] by (simp add: workflow_root)

lemma handoff_states_commentor: "''CommentorAgent'' \<in> handoff_states workflow_agent"
  by (rule handoff_states.handoff [OF handoff_states_review, of review_and_posting_agent])
    (simp_all add: workflow_agents agent_names agent_handoffs)

lemma handoff_states_context: "''ContextAgent'' \<in> handoff_states workflow_agent"
  by (rule handoff_states.handoff [OF handoff_states_commentor, of commentor_agent])
    (simp_all add: workflow_agents agent_names agent_handoffs)

text \<open>
  C6. Every handoff target that an agent declares is the name of an agent of the
  workflow; the declared targets are CommentorAgent for ContextAgent, ContextAgent and
  ReviewAndPostingAgent for CommentorAgent, and CommentorAgent for ReviewAndPostingAgent;
  so the agent names reachable from the root agent through declared handoffs are the
  three configured names and no other.
\<close>

theorem handoff_targets_configured:
  "(\<forall>a \<in> set (agents workflow_agent).
      set (can_handoff_to a) \<subseteq> set (map name (agents workflow_agent)))
   \<and> set (map name (agents workflow_agent)) =
       {''ContextAgent'', ''CommentorAgent'', ''ReviewAndPostingAgent''}
   \<and> can_handoff_to context_agent = [name commentor_agent]
   \<and> can_handoff_to commentor_agent = [name context_agent, name review_and_posting_agent]
   \<and> can_handoff_to review_and_posting_agent = [name commentor_agent]
   \<and> handoff_states workflow_agent = set (map name (agents workflow_agent))"
proof -
  have names: "set (map name (agents workflow_agent)) =
      {''ContextAgent'', ''CommentorAgent'', ''ReviewAndPostingAgent''}"
    by (simp add: workflow_agents agent_names)
  have closed: "\<forall>a \<in> set (agents workflow_agent).
      set (can_handoff_to a) \<subseteq> set (map name (agents workflow_agent))"
    unfolding names by (simp add: workflow_agents agent_handoffs)
  have reach: "handoff_states workflow_agent =
      {''ContextAgent'', ''CommentorAgent'', ''ReviewAndPostingAgent''}"
    using handoff_states_upper handoff_states_review handoff_states_commentor
      handoff_states_context by blast
  show ?thesis
    using names closed reach by (simp add: agent_names agent_handoffs)
qed

theorem handoff_targets_configured_witness:
  "commentor_agent \<in> set (agents workflow_agent)
   \<and> set (can_handoff_to commentor_agent) \<subseteq> set (map name (agents workflow_agent))
   \<and> ''ReviewAndPostingAgent'' \<in> set (can_handoff_to commentor_agent)
   \<and> ''ReviewAndPostingAgent'' \<in> handoff_states workflow_agent"
  using handoff_targets_configured
  by (simp add: workflow_agents agent_names agent_handoffs)

text \<open>
  C7. The drafting agent (CommentorAgent) has exactly one tool, the state-write tool
  \<^verbatim>\<open>add_comment_to_state\<close>, and may hand off to ContextAgent and to
  ReviewAndPostingAgent; the review-and-posting agent has exactly the two tools
  \<^verbatim>\<open>add_final_review_to_state\<close> and \<^verbatim>\<open>post_review_to_github\<close>, and may hand off to
  CommentorAgent.
\<close>

theorem agent_capability_sets:
  "tools commentor_agent = [add_comment_tool]
   \<and> map fn (tools commentor_agent) = [Fn_add_comment_to_state]
   \<and> map tool_name (tools commentor_agent) = [''add_comment_to_state'']
   \<and> can_handoff_to commentor_agent = [name context_agent, name review_and_posting_agent]
   \<and> tools review_and_posting_agent = [add_final_review_tool, post_review_tool]
   \<and> map fn (tools review_and_posting_agent) =
       [Fn_add_final_review_to_state, Fn_post_review_to_github]
   \<and> map tool_name (tools review_and_posting_agent) =
       [''add_final_review_to_state'', ''post_review_to_github'']
   \<and> can_handoff_to review_and_posting_agent = [name commentor_agent]"
  by (simp add: agent_tool_fns agent_tool_names agent_names agent_handoffs)
    (simp add: commentor_agent_def review_and_posting_agent_def)

text \<open>
  C9. The root agent of the workflow is ReviewAndPostingAgent, not the context agent.
  It is the only configured agent of that name; its tools include no read tool and
  neither \<^verbatim>\<open>add_context_to_state\<close> nor \<^verbatim>\<open>add_comment_to_state\<close>, its one handoff
  target is CommentorAgent, and when the run starts the fields \<^verbatim>\<open>gathered_contexts\<close> and
  \<^verbatim>\<open>draft_comment\<close> hold the empty string.
\<close>

theorem root_agent_is_review_and_posting:
  "root_agent workflow_agent = ''ReviewAndPostingAgent''
   \<and> root_agent workflow_agent = name review_and_posting_agent
   \<and> root_agent workflow_agent \<noteq> name context_agent
   \<and> filter (\<lambda>a. name a = root_agent workflow_agent) (agents workflow_agent) =
       [review_and_posting_agent]
   \<and> set (map fn (tools review_and_posting_agent)) \<inter>
       {Fn_get_pr_details, Fn_get_commit_details, Fn_add_context_to_state,
        Fn_add_comment_to_state} = {}
   \<and> can_handoff_to review_and_posting_agent = [''CommentorAgent'']
   \<and> initial_state workflow_agent ''gathered_contexts'' = Some (PStr '''')
   \<and> initial_state workflow_agent ''draft_comment'' = Some (PStr '''')"
  by (simp add: workflow_root workflow_agents agent_names agent_handoffs agent_tool_fns)
    (simp add: workflow_agent_def)

section \<open>What the read tools return\<close>

lemma get_pr_details_Inr:
  "get_pr_details repo h n = Inr d \<longleftrightarrow>
     (\<exists>pr cs. get_pull repo h n = Inr pr \<and> get_commits repo h pr = Inr cs \<and>
        d = [(''author'', PStr (login (user pr))),
             (''title'', PStr (title pr)),
             (''body'', str_or_none (body pr)),
             (''diff_url'', PStr (diff_url pr)),
             (''state'', PStr (state pr)),
             (''head_sha'', PStr (pull_request_part.sha (head pr))),
             (''commit_SHAs'', PList (map PStr (map commit.sha cs)))])"
  unfolding get_pr_details_def Let_def
  by (auto split: sum.splits)

lemma get_commit_details_Inr:
  "get_commit_details repo h s = Inr rs \<longleftrightarrow>
     (\<exists>c. get_commit repo h s = Inr c \<and> rs = map file_record (files c))"
  unfolding get_commit_details_def
  by (auto split: sum.splits)

lemma file_record_keys:
  "map fst (file_record f) =
     [''filename'', ''status'', ''additions'', ''deletions'', ''changes'', ''patch'']"
  by (simp add: file_record_def)

lemma file_record_values:
  "map snd (file_record f) =
     [PStr (filename f), PStr (status f), PInt (additions f), PInt (deletions f),
      PInt (changes f), str_or_none (patch f)]"
  by (simp add: file_record_def)

text \<open>
  C4. Whenever \<^verbatim>\<open>get_pr_details\<close> succeeds, its result is a record with exactly the keys
  author, title, body, diff_url, state, head_sha and commit_SHAs, holding the author's
  login, the title, the body, the diff reference, the state and the head commit
  identifier of the pull request the collaborator returned, and the identifiers of its
  commits in order. Whenever \<^verbatim>\<open>get_commit_details\<close> succeeds, its result has one record per
  changed file of the commit, in order, each with exactly the keys filename, status,
  additions, deletions, changes and patch, holding that file's values. Both tools
  succeed whenever the collaborator's calls do.
\<close>

theorem read_tools_structured_records:
  "(get_pr_details repo h n = Inr d \<longrightarrow>
      map fst d = [''author'', ''title'', ''body'', ''diff_url'', ''state'', ''head_sha'',
                   ''commit_SHAs'']
      \<and> (\<exists>pr cs. get_pull repo h n = Inr pr \<and> get_commits repo h pr = Inr cs
            \<and> map snd d = [PStr (login (user pr)), PStr (title pr), str_or_none (body pr),
                           PStr (diff_url pr), PStr (state pr),
                           PStr (pull_request_part.sha (head pr)),
                           PList (map (\<lambda>c. PStr (commit.sha c)) cs)]))
   \<and> (get_commit_details repo h s = Inr rs \<longrightarrow>
      (\<exists>c. get_commit repo h s = Inr c \<and> length rs = length (files c)
         \<and> (\<forall>i < length rs.
              map fst (rs ! i) = [''filename'', ''status'', ''additions'', ''deletions'',
                                  ''changes'', ''patch'']
              \<and> map snd (rs ! i) =
                  [PStr (filename (files c ! i)), PStr (status (files c ! i)),
                   PInt (additions (files c ! i)), PInt (deletions (files c ! i)),
                   PInt (changes (files c ! i)), str_or_none (patch (files c ! i))])))
   \<and> (\<forall>pr cs. get_pull repo h n = Inr pr \<and> get_commits repo h pr = Inr cs \<longrightarrow>
        (\<exists>d'. get_pr_details repo h n = Inr d'))
   \<and> (\<forall>c. get_commit repo h s = Inr c \<longrightarrow> (\<exists>rs'. get_commit_details repo h s = Inr rs'))"
proof -
  have pr: "get_pr_details repo h n = Inr d \<longrightarrow>
      map fst d = [''author'', ''title'', ''body'', ''diff_url'', ''state'', ''head_sha'',
                   ''commit_SHAs'']
      \<and> (\<exists>pr cs. get_pull repo h n = Inr pr \<and> get_commits repo h pr = Inr cs
            \<and> map snd d = [PStr (login (user pr)), PStr (title pr), str_or_none (body pr),
                           PStr (diff_url pr), PStr (state pr),
                           PStr (pull_request_part.sha (head pr)),
                           PList (map (\<lambda>c. PStr (commit.sha c)) cs)])"
    by (auto simp: get_pr_details_Inr comp_def)
  have cm: "get_commit_details repo h s = Inr rs \<longrightarrow>
      (\<exists>c. get_commit repo h s = Inr c \<and> length rs = length (files c)
         \<and> (\<forall>i < length rs.
              map fst (rs ! i) = [''filename'', ''status'', ''additions'', ''deletions'',
                                  ''changes'', ''patch'']
              \<and> map snd (rs ! i) =
                  [PStr (filename (files c ! i)), PStr (status (files c ! i)),
                   PInt (additions (files c ! i)), PInt (deletions (files c ! i)),
                   PInt (changes (files c ! i)), str_or_none (patch (files c ! i))]))"
    by (auto simp: get_commit_details_Inr file_record_keys file_record_values)
  have ok1: "\<forall>pr cs. get_pull repo h n = Inr pr \<and> get_commits repo h pr = Inr cs \<longrightarrow>
        (\<exists>d'. get_pr_details repo h n = Inr d')"
    by (simp add: get_pr_details_Inr)
  have ok2: "\<forall>c. get_commit repo h s = Inr c \<longrightarrow> (\<exists>rs'. get_commit_details repo h s = Inr rs')"
    by (simp add: get_commit_details_Inr)
  from pr cm ok1 ok2 show ?thesis by blast
qed

theorem read_tools_structured_records_witness:
  "get_pr_details (sample_repo PostAnother) [] 1 =
     Inr [(''author'', PStr ''octocat''), (''title'', PStr ''Fix typo''), (''body'', PNone),
          (''diff_url'', PStr ''https://example.org/pull/1.diff''), (''state'', PStr ''open''),
          (''head_sha'', PStr ''abc123''), (''commit_SHAs'', PList [PStr ''abc123''])]
   \<and> get_commit_details (sample_repo PostAnother) [] ''abc123'' =
     Inr [[(''filename'', PStr ''README.md''), (''status'', PStr ''modified''),
           (''additions'', PInt 3), (''deletions'', PInt 3), (''changes'', PInt 6),
           (''patch'', PStr ''@@ -1,3 +1,3 @@'')]]
   \<and> (0::nat) < length [sample_file]"
proof -
  have p: "get_pull (sample_repo PostAnother) [] 1 = Inr sample_pr"
    and c: "get_commits (sample_repo PostAnother) [] sample_pr = Inr [sample_commit]"
    and g: "get_commit (sample_repo PostAnother) [] ''abc123'' = Inr sample_commit"
    by (simp_all add: sample_repo_def)
  from read_tools_structured_records
    [of "sample_repo PostAnother" "[]" 1 _ "''abc123''" _] p c g
  obtain d rs where d: "get_pr_details (sample_repo PostAnother) [] 1 = Inr d"
    and rs: "get_commit_details (sample_repo PostAnother) [] ''abc123'' = Inr rs"
    by blast
  from d p c have "d = [(''author'', PStr ''octocat''), (''title'', PStr ''Fix typo''),
      (''body'', PNone), (''diff_url'', PStr ''https://example.org/pull/1.diff''),
      (''state'', PStr ''open''), (''head_sha'', PStr ''abc123''),
      (''commit_SHAs'', PList [PStr ''abc123''])]"
    by (simp add: get_pr_details_Inr sample_pr_def sample_commit_def str_or_none_def)
  moreover from rs g have "rs = [[(''filename'', PStr ''README.md''),
      (''status'', PStr ''modified''), (''additions'', PInt 3), (''deletions'', PInt 3),
      (''changes'', PInt 6), (''patch'', PStr ''@@ -1,3 +1,3 @@'')]]"
    by (simp add: get_commit_details_Inr sample_commit_def sample_file_def file_record_def
        str_or_none_def)
  ultimately show ?thesis using d rs by simp
qed

section \<open>What the posting tool returns\<close>

lemma post_review_to_github_Inr:
  "post_review_to_github repo h n c = Inr (r, h') \<longleftrightarrow>
     (\<exists>pr rv. get_pull repo h n = Inr pr \<and>
        create_review repo h pr c ''COMMENT'' = Inr (rv, h') \<and>
        r = [(''status'', PStr ''success''), (''review_id'', PInt (id' rv))])"
  unfolding post_review_to_github_def
  by (auto split: sum.splits prod.splits)

lemma post_review_to_github_Inl:
  "post_review_to_github repo h n c = Inl e \<longleftrightarrow>
     get_pull repo h n = Inl e \<or>
     (\<exists>pr. get_pull repo h n = Inr pr \<and> create_review repo h pr c ''COMMENT'' = Inl e)"
  unfolding post_review_to_github_def
  by (auto split: sum.splits prod.splits)

lemma sample_get_pull: "get_pull (sample_repo policy) h 1 = Inr sample_pr"
  by (simp add: sample_repo_def)

lemma sample_create_first:
  "create_review (sample_repo policy) [] sample_pr ''LGTM'' ''COMMENT'' =
     Inr (\<lparr>id' = 1\<rparr>, [(1, ''LGTM'')])"
  by (simp add: sample_repo_def sample_create_review_def sample_pr_def)

lemma sample_create_again:
  "create_review (sample_repo PostAnother) [(1, ''LGTM'')] sample_pr ''LGTM'' ''COMMENT'' =
     Inr (\<lparr>id' = 2\<rparr>, [(1, ''LGTM''), (1, ''LGTM'')])"
  "create_review (sample_repo ReturnExisting) [(1, ''LGTM'')] sample_pr ''LGTM'' ''COMMENT'' =
     Inr (\<lparr>id' = 1\<rparr>, [(1, ''LGTM'')])"
  "create_review (sample_repo Refuse) [(1, ''LGTM'')] sample_pr ''LGTM'' ''COMMENT'' =
     Inl (GithubException 422 ''Unprocessable Entity'')"
  by (simp_all add: sample_repo_def sample_create_review_def sample_pr_def)

text \<open>
  C5. Whenever \<^verbatim>\<open>post_review_to_github\<close> succeeds, it returns a record with the two keys
  status and review_id: the status is \<^verbatim>\<open>success\<close> and the identifier is that of the review
  which the collaborator's \<^verbatim>\<open>create_review\<close> returned for this PR and body, posted as a
  COMMENT. It succeeds whenever the collaborator's two calls do.
\<close>

theorem post_review_confirmation_record:
  "(post_review_to_github repo h n c = Inr (r, h') \<longrightarrow>
      map fst r = [''status'', ''review_id'']
      \<and> map_of r ''status'' = Some (PStr ''success'')
      \<and> (\<exists>pr rv. get_pull repo h n = Inr pr
            \<and> create_review repo h pr c ''COMMENT'' = Inr (rv, h')
            \<and> map_of r ''review_id'' = Some (PInt (id' rv))))
   \<and> (\<forall>pr rv h2. get_pull repo h n = Inr pr
          \<and> create_review repo h pr c ''COMMENT'' = Inr (rv, h2) \<longrightarrow>
        post_review_to_github repo h n c =
          Inr ([(''status'', PStr ''success''), (''review_id'', PInt (id' rv))], h2))"
proof -
  have a: "post_review_to_github repo h n c = Inr (r, h') \<longrightarrow>
      map fst r = [''status'', ''review_id'']
      \<and> map_of r ''status'' = Some (PStr ''success'')
      \<and> (\<exists>pr rv. get_pull repo h n = Inr pr
            \<and> create_review repo h pr c ''COMMENT'' = Inr (rv, h')
            \<and> map_of r ''review_id'' = Some (PInt (id' rv)))"
    by (auto simp: post_review_to_github_Inr)
  have b: "\<forall>pr rv h2. get_pull repo h n = Inr pr
          \<and> create_review repo h pr c ''COMMENT'' = Inr (rv, h2) \<longrightarrow>
        post_review_to_github repo h n c =
          Inr ([(''status'', PStr ''success''), (''review_id'', PInt (id' rv))], h2)"
    by (simp add: post_review_to_github_Inr)
  from a b show ?thesis by blast
qed

theorem post_review_confirmation_record_witness:
  "post_review_to_github (sample_repo PostAnother) [] 1 ''LGTM'' =
     Inr ([(''status'', PStr ''success''), (''review_id'', PInt 1)], [(1, ''LGTM'')])
   \<and> map_of [(''status'', PStr ''success''), (''review_id'', PInt 1)] ''review_id'' =
       Some (PInt (id' \<lparr>id' = 1\<rparr>))"
  using post_review_confirmation_record
    [of "sample_repo PostAnother" "[]" 1 "''LGTM''"
        "[(''status'', PStr ''success''), (''review_id'', PInt 1)]" "[(1, ''LGTM'')]"]
    sample_get_pull [of PostAnother "[]"] sample_create_first [of PostAnother]
  by simp

section \<open>Posting the same review again\<close>

text \<open>
  C2 as stated fails: with a hosting service that posts every review it is sent, the
  second invocation with the same PR number and body is not rejected and returns
  another identifier, and two reviews are posted.
\<close>

theorem post_review_twice_counterexample:
  "post_review_to_github (sample_repo PostAnother) [] 1 ''LGTM'' =
     Inr ([(''status'', PStr ''success''), (''review_id'', PInt 1)], [(1, ''LGTM'')])
   \<and> post_review_to_github (sample_repo PostAnother) [(1, ''LGTM'')] 1 ''LGTM'' =
     Inr ([(''status'', PStr ''success''), (''review_id'', PInt 2)],
          [(1, ''LGTM''), (1, ''LGTM'')])"
  by (simp add: post_review_to_github_Inr sample_get_pull sample_create_first
      sample_create_again)

text \<open>
  C2, amended. After a successful post, invoking \<^verbatim>\<open>post_review_to_github\<close> again with the
  same PR number and body sends the review to the collaborator again, and the outcome is
  the collaborator's: if the collaborator answers the repeated request with the same
  review and an unchanged hosting state, the tool returns the same confirmation record
  and nothing more is posted; if the collaborator refuses the repeated request, the
  invocation fails; and if the collaborator creates a review, the tool returns that
  review's identifier. The tool itself neither deduplicates nor rejects.
\<close>

theorem post_review_repeat_follows_collaborator:
  assumes "post_review_to_github repo h n c = Inr (r1, h1)"
  shows "(get_pull repo h1 n = get_pull repo h n
          \<and> (\<forall>pr rv. get_pull repo h n = Inr pr
                \<and> create_review repo h pr c ''COMMENT'' = Inr (rv, h1) \<longrightarrow>
              create_review repo h1 pr c ''COMMENT'' = Inr (rv, h1)) \<longrightarrow>
            post_review_to_github repo h1 n c = Inr (r1, h1))
       \<and> ((\<forall>pr. get_pull repo h1 n = Inr pr \<longrightarrow>
              (\<exists>e. create_review repo h1 pr c ''COMMENT'' = Inl e)) \<longrightarrow>
            (\<exists>e. post_review_to_github repo h1 n c = Inl e))
       \<and> (\<forall>pr rv h2. get_pull repo h1 n = Inr pr
              \<and> create_review repo h1 pr c ''COMMENT'' = Inr (rv, h2) \<longrightarrow>
            post_review_to_github repo h1 n c =
              Inr ([(''status'', PStr ''success''), (''review_id'', PInt (id' rv))], h2))"
proof (intro conjI impI allI)
  assume same: "get_pull repo h1 n = get_pull repo h n
     \<and> (\<forall>pr rv. get_pull repo h n = Inr pr
           \<and> create_review repo h pr c ''COMMENT'' = Inr (rv, h1) \<longrightarrow>
         create_review repo h1 pr c ''COMMENT'' = Inr (rv, h1))"
  from assms obtain pr rv where pr: "get_pull repo h n = Inr pr"
    and rv: "create_review repo h pr c ''COMMENT'' = Inr (rv, h1)"
    and r1: "r1 = [(''status'', PStr ''success''), (''review_id'', PInt (id' rv))]"
    unfolding post_review_to_github_Inr by blast
  from same pr rv have "get_pull repo h1 n = Inr pr"
    and "create_review repo h1 pr c ''COMMENT'' = Inr (rv, h1)"
    by simp_all
  with r1 show "post_review_to_github repo h1 n c = Inr (r1, h1)"
    unfolding post_review_to_github_Inr by blast
next
  assume refuse: "\<forall>pr. get_pull repo h1 n = Inr pr \<longrightarrow>
     (\<exists>e. create_review repo h1 pr c ''COMMENT'' = Inl e)"
  show "\<exists>e. post_review_to_github repo h1 n c = Inl e"
  proof (cases "get_pull repo h1 n")
    case (Inl e)
    then show ?thesis unfolding post_review_to_github_Inl by blast
  next
    case (Inr pr)
    with refuse obtain e where "create_review repo h1 pr c ''COMMENT'' = Inl e" by blast
    with Inr show ?thesis unfolding post_review_to_github_Inl by blast
  qed
next
  fix pr rv h2
  assume "get_pull repo h1 n = Inr pr \<and> create_review repo h1 pr c ''COMMENT'' = Inr (rv, h2)"
  then show "post_review_to_github repo h1 n c =
      Inr ([(''status'', PStr ''success''), (''review_id'', PInt (id' rv))], h2)"
    unfolding post_review_to_github_Inr by blast
qed

theorem post_review_repeat_follows_collaborator_witness:
  "post_review_to_github (sample_repo ReturnExisting) [] 1 ''LGTM'' =
     Inr ([(''status'', PStr ''success''), (''review_id'', PInt 1)], [(1, ''LGTM'')])
   \<and> post_review_to_github (sample_repo ReturnExisting) [(1, ''LGTM'')] 1 ''LGTM'' =
     Inr ([(''status'', PStr ''success''), (''review_id'', PInt 1)], [(1, ''LGTM'')])
   \<and> post_review_to_github (sample_repo Refuse) [] 1 ''LGTM'' =
     Inr ([(''status'', PStr ''success''), (''review_id'', PInt 1)], [(1, ''LGTM'')])
   \<and> (\<exists>e. post_review_to_github (sample_repo Refuse) [(1, ''LGTM'')] 1 ''LGTM'' = Inl e)"
proof -
  have first: "post_review_to_github (sample_repo policy) [] 1 ''LGTM'' =
      Inr ([(''status'', PStr ''success''), (''review_id'', PInt 1)], [(1, ''LGTM'')])"
    for policy
    by (simp add: post_review_to_github_Inr sample_get_pull sample_create_first)
  have again: "post_review_to_github (sample_repo ReturnExisting) [(1, ''LGTM'')] 1 ''LGTM'' =
      Inr ([(''status'', PStr ''success''), (''review_id'', PInt 1)], [(1, ''LGTM'')])"
    using post_review_repeat_follows_collaborator [OF first [of ReturnExisting]]
    by (simp add: sample_get_pull sample_create_first sample_create_again)
  have refused: "\<exists>e. post_review_to_github (sample_repo Refuse) [(1, ''LGTM'')] 1 ''LGTM'' = Inl e"
    using post_review_repeat_follows_collaborator [OF first [of Refuse]]
    by (simp add: sample_get_pull sample_create_again)
  from first again refused show ?thesis by blast
qed

end
